theory Spec2Isabelle
  imports Main
begin

section \<open>Type annotations and errors\<close>

text \<open>
  The type objects that \<^verbatim>\<open>replace_pydantic_types\<close> walks over: an ordinary class
  (\<^verbatim>\<open>int\<close>, \<^verbatim>\<open>NoneType\<close>, a generated strawberry class), a subclass of pydantic's
  \<^verbatim>\<open>BaseModel\<close>, a \<^verbatim>\<open>Literal[...]\<close> (its \<^verbatim>\<open>__origin__\<close> is \<^verbatim>\<open>Literal\<close> and its
  arguments are values, kept as their printed form), and a generic alias of the
  \<^verbatim>\<open>typing\<close> module with its origin and its \<^verbatim>\<open>__args__\<close>. Classes are identified by
  their names.
\<close>

datatype ty =
    Class string
  | Model string
  | LiteralT "string list"
  | Generic string "ty list"

datatype error =
    MissingFieldsListError string
  | UnsupportedTypeError
  | UnregisteredTypeException ty
  | KeyError string
  | ValidationError string
  | AttributeError string
  | HelperError string

text \<open>
  The attributes of the classes: \<open>A c a\<close> is what \<^verbatim>\<open>getattr(c, a)\<close> finds on the class
  named \<open>c\<close>, and \<open>None\<close> when \<^verbatim>\<open>hasattr(c, a)\<close> is false.
\<close>

type_synonym class_attrs = "string \<Rightarrow> string \<rightharpoonup> ty"

section \<open>replace\_pydantic\_types\<close>

text \<open>
  \<^verbatim>\<open>copy_with\<close> of a \<^verbatim>\<open>typing\<close> alias keeps the origin and takes the new arguments.
\<close>

fun copy_with :: "ty \<Rightarrow> ty list \<Rightarrow> ty" where
  "copy_with (Generic origin args) params = Generic origin params"
| "copy_with t params = t"

text \<open>
  Lines 59 to 67 wrap the rebuilt type in a new class when it is an instance of
  strawberry's \<^verbatim>\<open>TypeDefinition\<close>. What \<^verbatim>\<open>copy_with\<close> returns here is an alias of the
  \<^verbatim>\<open>typing\<close> module, a class, a model or a literal; none of them is such an
  instance, so the test is false on every value of \<^typ>\<open>ty\<close>. The branch is kept in
  the model; \<open>type_definition_name\<close> stands for the \<^verbatim>\<open>name\<close> attribute read there.
\<close>

definition isinstance_TypeDefinition :: "ty \<Rightarrow> bool" where
  "isinstance_TypeDefinition t = False"

fun type_definition_name :: "ty \<Rightarrow> string" where
  "type_definition_name (Class c) = c"
| "type_definition_name (Model m) = m"
| "type_definition_name (LiteralT vs) = ''Literal''"
| "type_definition_name (Generic origin args) = origin"

definition registration_attr :: "bool \<Rightarrow> string" where
  "registration_attr is_input =
     (if is_input then ''_strawberry_input_type'' else ''_strawberry_type'')"

text \<open>
  The generator expression of line 56 is \<open>replace_args\<close>: the arguments are substituted
  from left to right and the first exception ends the walk.
\<close>

fun replace_pydantic_types :: "class_attrs \<Rightarrow> ty \<Rightarrow> bool \<Rightarrow> error + ty"
  and replace_args :: "class_attrs \<Rightarrow> ty list \<Rightarrow> bool \<Rightarrow> error + ty list" where
  "replace_pydantic_types A (LiteralT vs) is_input = Inr (LiteralT vs)"
| "replace_pydantic_types A (Generic origin args) is_input =
     (case replace_args A args is_input of
        Inl e \<Rightarrow> Inl e
      | Inr ts \<Rightarrow>
          (let replaced_type = copy_with (Generic origin args) ts in
           if isinstance_TypeDefinition replaced_type
           then Inr (Class (type_definition_name replaced_type))
           else Inr replaced_type))"
| "replace_pydantic_types A (Model m) is_input =
     (let attr = registration_attr is_input in
      case A m attr of
        Some t \<Rightarrow> Inr t
      | None \<Rightarrow> Inl (UnregisteredTypeException (Model m)))"
| "replace_pydantic_types A (Class c) is_input = Inr (Class c)"
| "replace_args A [] is_input = Inr []"
| "replace_args A (t # ts) is_input =
     (case replace_pydantic_types A t is_input of
        Inl e \<Rightarrow> Inl e
      | Inr t' \<Rightarrow>
          (case replace_args A ts is_input of
             Inl e \<Rightarrow> Inl e
           | Inr ts' \<Rightarrow> Inr (t' # ts')))"

section \<open>Values, model fields and strawberry fields\<close>

text \<open>
  Runtime values: scalars, lists, an instance of a pydantic model (its class and its
  field values in the order of the model's fields) and an instance of a generated
  dataclass (its class and its attribute values).
\<close>

datatype pyval =
    VNone
  | VInt int
  | VStr string
  | VList "pyval list"
  | VModel string "(string \<times> pyval) list"
  | VObj string "(string \<times> pyval) list"

text \<open>
  What the code reads of pydantic's \<^verbatim>\<open>ModelField\<close>: \<^verbatim>\<open>name\<close>, \<^verbatim>\<open>outer_type_\<close> (as
  \<open>mf_outer_type\<close>), \<^verbatim>\<open>required\<close>, \<^verbatim>\<open>alias\<close>, \<^verbatim>\<open>has_alias\<close>,
  \<^verbatim>\<open>field_info.description\<close>, and the default that pydantic uses for a field that is
  not required.
\<close>

record ModelField =
  mf_name :: string
  mf_outer_type :: ty
  mf_required :: bool
  mf_alias :: string
  mf_has_alias :: bool
  mf_description :: "string option"
  mf_default :: pyval

text \<open>
  A pydantic model class: its name, \<^verbatim>\<open>__fields__\<close> (an ordered dict keyed by the field
  names, given as the list of its values) and the \<^verbatim>\<open>allow_population_by_field_name\<close>
  setting of its \<^verbatim>\<open>Config\<close>.
\<close>

record PydanticModel =
  model_name :: string
  model_fields :: "ModelField list"
  allow_population_by_field_name :: bool

text \<open>
  A \<^verbatim>\<open>StrawberryField\<close>. \<open>None\<close> is \<^verbatim>\<open>UNSET\<close> for \<open>sf_default\<close>, a missing factory
  for \<open>sf_default_factory\<close> (a factory is given by the value it produces) and no resolver
  for \<open>sf_base_resolver\<close> (a resolver is given by its name). The \<^verbatim>\<open>type\<close> property reads
  \<open>sf_type_annotation\<close>.
\<close>

record StrawberryField =
  sf_python_name :: string
  sf_graphql_name :: "string option"
  sf_default :: "pyval option"
  sf_default_factory :: "pyval option"
  sf_type_annotation :: ty
  sf_description :: "string option"
  sf_base_resolver :: "string option"

record DataclassCreationFields =
  dcf_name :: string
  dcf_type_annotation :: ty
  dcf_field :: StrawberryField

definition to_tuple :: "DataclassCreationFields \<Rightarrow> string \<times> ty \<times> StrawberryField" where
  "to_tuple f = (dcf_name f, dcf_type_annotation f, dcf_field f)"

text \<open>The class under the decorator: \<^verbatim>\<open>__name__\<close>, \<^verbatim>\<open>__annotations__\<close>, \<^verbatim>\<open>__bases__\<close>.\<close>

record UserClass =
  cls_name :: string
  cls_annotations :: "(string \<times> ty) list"
  cls_bases :: "string list"

definition strawberry_auto :: ty where
  "strawberry_auto = Class ''strawberry.auto''"

definition NoneType :: ty where
  "NoneType = Class ''NoneType''"

text \<open>
  \<^verbatim>\<open>Optional[t]\<close> is \<^verbatim>\<open>Union[t, None]\<close>: \<^verbatim>\<open>typing\<close> flattens a union argument, drops
  repeated members (keeping the first) and returns the member itself when one is left.
\<close>

fun union_members :: "ty \<Rightarrow> ty list" where
  "union_members (Generic origin args) =
     (if origin = ''Union'' then args else [Generic origin args])"
| "union_members t = [t]"

fun dedup :: "'a list \<Rightarrow> 'a list" where
  "dedup [] = []"
| "dedup (x # xs) = x # dedup (filter (\<lambda>y. y \<noteq> x) xs)"

definition Optional :: "ty \<Rightarrow> ty" where
  "Optional t =
     (case dedup (union_members t @ [NoneType]) of
        [m] \<Rightarrow> m
      | ms \<Rightarrow> Generic ''Union'' ms)"

section \<open>The helpers that are not in this module\<close>

text \<open>
  The module calls functions of \<^verbatim>\<open>strawberry.experimental.pydantic.fields\<close>,
  \<^verbatim>\<open>...pydantic.utils\<close>, \<^verbatim>\<open>strawberry.object_type\<close> and
  \<^verbatim>\<open>strawberry.types.type_resolver\<close>. They are parameters of the model:
  \<^item> \<open>get_basic_type\<close> maps a pydantic type to a basic one, or raises
    \<^verbatim>\<open>UnsupportedTypeError\<close> (the result \<open>None\<close>);
  \<^item> \<open>get_default_factory_for_field\<close> gives the default factory of a model field;
  \<^item> \<open>ensure_all_auto_fields_in_pydantic\<close> returns (the result \<open>None\<close>) or raises an
    exception of its own, given by its message;
  \<^item> \<open>get_fields\<close> is \<^verbatim>\<open>_get_fields(_wrap_dataclass(cls))\<close> and \<open>get_private_fields\<close> is
    \<^verbatim>\<open>get_private_fields(_wrap_dataclass(cls))\<close>;
  \<^item> \<open>sort_creation_fields\<close> orders the creation fields.
\<close>

record helpers =
  get_basic_type :: "ty \<Rightarrow> ty option"
  get_default_factory_for_field :: "ModelField \<Rightarrow> pyval option"
  ensure_all_auto_fields_in_pydantic :: "PydanticModel \<Rightarrow> string set \<Rightarrow> string \<Rightarrow> string option"
  get_fields :: "UserClass \<Rightarrow> StrawberryField list"
  get_private_fields :: "UserClass \<Rightarrow> StrawberryField list"
  sort_creation_fields :: "DataclassCreationFields list \<Rightarrow> DataclassCreationFields list"

section \<open>get\_type\_for\_field and \_build\_dataclass\_creation\_fields\<close>

definition get_type_for_field ::
  "helpers \<Rightarrow> class_attrs \<Rightarrow> ModelField \<Rightarrow> bool \<Rightarrow> error + ty" where
  "get_type_for_field H A field is_input =
     (case get_basic_type H (mf_outer_type field) of
        None \<Rightarrow> Inl UnsupportedTypeError
      | Some basic \<Rightarrow>
          (case replace_pydantic_types A basic is_input of
             Inl e \<Rightarrow> Inl e
           | Inr replaced \<Rightarrow>
               if \<not> mf_required field then Inr (Optional replaced) else Inr replaced))"

text \<open>
  \<open>existing_fields\<close> is a dict: reading a missing key raises \<^verbatim>\<open>KeyError\<close>.
\<close>

definition build_dataclass_creation_fields ::
  "helpers \<Rightarrow> class_attrs \<Rightarrow> ModelField \<Rightarrow> bool \<Rightarrow> (string \<rightharpoonup> StrawberryField) \<Rightarrow> string set
     \<Rightarrow> error + DataclassCreationFields" where
  "build_dataclass_creation_fields H A field is_input existing_fields auto_fields_set =
     (case (if mf_name field \<in> auto_fields_set
            then get_type_for_field H A field is_input
            else (case existing_fields (mf_name field) of
                    None \<Rightarrow> Inl (KeyError (mf_name field))
                  | Some existing \<Rightarrow> Inr (sf_type_annotation existing))) of
        Inl e \<Rightarrow> Inl e
      | Inr type_annotation \<Rightarrow>
          (let built =
                 \<lparr>sf_python_name = mf_name field,
                  sf_graphql_name = (if mf_has_alias field then Some (mf_alias field) else None),
                  sf_default = None,
                  sf_default_factory = get_default_factory_for_field H field,
                  sf_type_annotation = type_annotation,
                  sf_description = mf_description field,
                  sf_base_resolver = None\<rparr>;
               strawberry_field =
                 (case existing_fields (mf_name field) of
                    Some existing \<Rightarrow>
                      if sf_base_resolver existing \<noteq> None then existing else built
                  | None \<Rightarrow> built)
           in Inr \<lparr>dcf_name = mf_name field,
                   dcf_type_annotation = type_annotation,
                   dcf_field = strawberry_field\<rparr>))"

section \<open>The decorator\<close>

text \<open>
  The keyword arguments of \<^verbatim>\<open>type\<close>. A callable passed as \<^verbatim>\<open>from_pydantic\<close> or
  \<^verbatim>\<open>to_pydantic\<close> is given by its name.
\<close>

record type_kwargs =
  kw_fields :: "string list option"
  kw_name :: "string option"
  kw_is_input :: bool
  kw_is_interface :: bool
  kw_description :: "string option"
  kw_directives :: "string list"
  kw_all_fields :: bool
  kw_from_pydantic :: "string option"
  kw_to_pydantic :: "string option"

datatype converter = Default | Custom string

text \<open>
  The class that \<^verbatim>\<open>wrap\<close> returns: what \<^verbatim>\<open>make_dataclass\<close> was given (the name, the
  field tuples, the bases, and the \<^verbatim>\<open>is_type_of\<close> closure, kept as the model it
  captured), what \<^verbatim>\<open>_process_type\<close> was given, and the attributes set afterwards:
  \<^verbatim>\<open>_pydantic_type\<close>, and \<^verbatim>\<open>from_pydantic\<close> and \<^verbatim>\<open>to_pydantic\<close>, each the default
  function of lines 253 to 267 or the callable that was passed.
\<close>

record StrawberryType =
  st_name :: string
  st_fields :: "(string \<times> ty \<times> StrawberryField) list"
  st_bases :: "string list"
  st_is_type_of_model :: PydanticModel
  st_graphql_name :: "string option"
  st_is_input :: bool
  st_is_interface :: bool
  st_description :: "string option"
  st_directives :: "string list"
  st_pydantic_type :: PydanticModel
  st_from_pydantic :: converter
  st_to_pydantic :: converter

text \<open>
  The state that decoration touches: the attributes of the classes and the warnings
  issued so far.
\<close>

record pystate =
  attrs :: class_attrs
  warnings :: "string list"

definition warn :: "string \<Rightarrow> pystate \<Rightarrow> pystate" where
  "warn msg s = s\<lparr>warnings := warnings s @ [msg]\<rparr>"

definition setattr_class :: "string \<Rightarrow> string \<Rightarrow> ty \<Rightarrow> pystate \<Rightarrow> pystate" where
  "setattr_class c a v s = s\<lparr>attrs := (attrs s)(c := (attrs s c)(a \<mapsto> v))\<rparr>"

text \<open>A comprehension whose body may raise: the first exception ends it.\<close>

fun collect :: "('a \<Rightarrow> error + 'b) \<Rightarrow> 'a list \<Rightarrow> error + 'b list" where
  "collect f [] = Inr []"
| "collect f (x # xs) =
     (case f x of
        Inl e \<Rightarrow> Inl e
      | Inr y \<Rightarrow> (case collect f xs of Inl e \<Rightarrow> Inl e | Inr ys \<Rightarrow> Inr (y # ys)))"

text \<open>Python's truth value of \<^verbatim>\<open>fields\<close>: neither \<^verbatim>\<open>None\<close> nor empty.\<close>

definition truthy :: "string list option \<Rightarrow> bool" where
  "truthy given = (case given of None \<Rightarrow> False | Some fs \<Rightarrow> fs \<noteq> [])"

definition model_field_names :: "PydanticModel \<Rightarrow> string list" where
  "model_field_names model = map mf_name (model_fields model)"

text \<open>Lines 158, 169 to 171 and 174 to 176.\<close>

definition original_fields_set :: "type_kwargs \<Rightarrow> string set" where
  "original_fields_set kw =
     (if truthy (kw_fields kw) then set (case kw_fields kw of Some fs \<Rightarrow> fs | None \<Rightarrow> []) else set [])"

definition fields_set_union :: "PydanticModel \<Rightarrow> type_kwargs \<Rightarrow> UserClass \<Rightarrow> string set" where
  "fields_set_union model kw cls =
     original_fields_set kw \<union>
     set (map fst (filter (\<lambda>(name, typ). name \<in> set (model_field_names model))
                    (cls_annotations cls)))"

definition auto_fields_set_union :: "type_kwargs \<Rightarrow> UserClass \<Rightarrow> string set" where
  "auto_fields_set_union kw cls =
     original_fields_set kw \<union>
     set (map fst (filter (\<lambda>(name, typ). typ = strawberry_auto) (cls_annotations cls)))"

text \<open>The two sets as they stand at line 188, after the \<^verbatim>\<open>all_fields\<close> override.\<close>

definition fields_set :: "PydanticModel \<Rightarrow> type_kwargs \<Rightarrow> UserClass \<Rightarrow> string set" where
  "fields_set model kw cls =
     (if kw_all_fields kw then set (model_field_names model)
      else fields_set_union model kw cls)"

definition auto_fields_set :: "PydanticModel \<Rightarrow> type_kwargs \<Rightarrow> UserClass \<Rightarrow> string set" where
  "auto_fields_set model kw cls =
     (if kw_all_fields kw then set (model_field_names model)
      else auto_fields_set_union kw cls)"

definition issue_warnings :: "PydanticModel \<Rightarrow> type_kwargs \<Rightarrow> UserClass \<Rightarrow> pystate \<Rightarrow> pystate" where
  "issue_warnings model kw cls s =
     (let s1 = (if truthy (kw_fields kw)
                then warn ''`fields` is deprecated, use `auto` type annotations instead'' s
                else s)
      in if kw_all_fields kw \<and> fields_set_union model kw cls \<noteq> {}
         then warn ''Using all_fields overrides any explicitly defined fields in the model, using both is likely a bug'' s1
         else s1)"

text \<open>
  A dict comprehension keeps the last value given for a key.
\<close>

definition extra_fields_dict :: "StrawberryField list \<Rightarrow> (string \<rightharpoonup> StrawberryField)" where
  "extra_fields_dict extra = map_of (rev (map (\<lambda>field. (sf_python_name field, field)) extra))"

text \<open>Lines 202 to 220.\<close>

definition all_model_fields ::
  "helpers \<Rightarrow> class_attrs \<Rightarrow> PydanticModel \<Rightarrow> type_kwargs \<Rightarrow> UserClass
     \<Rightarrow> error + DataclassCreationFields list" where
  "all_model_fields H A model kw cls =
     (let extra_strawberry_fields = get_fields H cls;
          private_fields = get_private_fields H cls
      in case collect
                (\<lambda>field. build_dataclass_creation_fields H A field (kw_is_input kw)
                            (extra_fields_dict extra_strawberry_fields)
                            (auto_fields_set model kw cls))
                (filter (\<lambda>field. mf_name field \<in> fields_set model kw cls) (model_fields model)) of
           Inl e \<Rightarrow> Inl e
         | Inr from_model \<Rightarrow>
             Inr (from_model @
                  map (\<lambda>field. \<lparr>dcf_name = sf_python_name field,
                                dcf_type_annotation = sf_type_annotation field,
                                dcf_field = field\<rparr>)
                      (filter (\<lambda>field. sf_python_name field \<notin> fields_set model kw cls)
                         (extra_strawberry_fields @ private_fields))))"

definition make_class ::
  "helpers \<Rightarrow> PydanticModel \<Rightarrow> type_kwargs \<Rightarrow> UserClass \<Rightarrow> DataclassCreationFields list
     \<Rightarrow> StrawberryType" where
  "make_class H model kw cls creation_fields =
     \<lparr>st_name = cls_name cls,
      st_fields = map to_tuple (sort_creation_fields H creation_fields),
      st_bases = cls_bases cls,
      st_is_type_of_model = model,
      st_graphql_name = kw_name kw,
      st_is_input = kw_is_input kw,
      st_is_interface = kw_is_interface kw,
      st_description = kw_description kw,
      st_directives = kw_directives kw,
      st_pydantic_type = model,
      st_from_pydantic = (case kw_from_pydantic kw of Some f \<Rightarrow> Custom f | None \<Rightarrow> Default),
      st_to_pydantic = (case kw_to_pydantic kw of Some f \<Rightarrow> Custom f | None \<Rightarrow> Default)\<rparr>"

text \<open>
  \<^verbatim>\<open>wrap\<close>, from the state before to the state after and the class or the exception.
\<close>

definition wrap ::
  "helpers \<Rightarrow> PydanticModel \<Rightarrow> type_kwargs \<Rightarrow> UserClass \<Rightarrow> pystate
     \<Rightarrow> pystate \<times> (error + StrawberryType)" where
  "wrap H model kw cls s =
     (let s' = issue_warnings model kw cls s in
      if fields_set model kw cls = {} then (s', Inl (MissingFieldsListError (cls_name cls)))
      else
        (case ensure_all_auto_fields_in_pydantic H model (auto_fields_set model kw cls)
                (cls_name cls) of
           Some msg \<Rightarrow> (s', Inl (HelperError msg))
         | None \<Rightarrow>
             (case all_model_fields H (attrs s') model kw cls of
                Inl e \<Rightarrow> (s', Inl e)
              | Inr creation_fields \<Rightarrow>
                  (let generated = make_class H model kw cls creation_fields
                   in (setattr_class (model_name model) (registration_attr (kw_is_input kw))
                         (Class (st_name generated)) s',
                       Inr generated)))))"

text \<open>
  \<^verbatim>\<open>isinstance\<close> looks for one of the classes in the method resolution order of the
  object's class; \<open>mro\<close> gives that order for every class name.
\<close>

fun type_of :: "pyval \<Rightarrow> string" where
  "type_of VNone = ''NoneType''"
| "type_of (VInt i) = ''int''"
| "type_of (VStr v) = ''str''"
| "type_of (VList vs) = ''list''"
| "type_of (VModel m kvs) = m"
| "type_of (VObj c kvs) = c"

definition isinstance :: "(string \<Rightarrow> string list) \<Rightarrow> pyval \<Rightarrow> string list \<Rightarrow> bool" where
  "isinstance mro obj classes = list_ex (\<lambda>c. c \<in> set (mro (type_of obj))) classes"

text \<open>
  The \<^verbatim>\<open>is_type_of\<close> classmethod of a generated class, called on the class \<open>cls\<close>.
\<close>

definition is_type_of ::
  "(string \<Rightarrow> string list) \<Rightarrow> StrawberryType \<Rightarrow> string \<Rightarrow> pyval \<Rightarrow> bool" where
  "is_type_of mro generated cls obj =
     isinstance mro obj [cls, model_name (st_is_type_of_model generated)]"

section \<open>Conversions between model instances and generated instances\<close>











lemma collect_cong [fundef_cong]:
  "xs = ys \<Longrightarrow> (\<And>x. x \<in> set ys \<Longrightarrow> f x = g x) \<Longrightarrow> collect f xs = collect g ys"
  by (induction ys arbitrary: xs) (auto split: sum.splits)








section \<open>Specification vocabulary and sample inputs\<close>

text \<open>The models that a walk over a type meets; a literal holds values, not types.\<close>

fun models_of :: "ty \<Rightarrow> string list"
  and models_of_args :: "ty list \<Rightarrow> string list" where
  "models_of (Class c) = []"
| "models_of (Model m) = [m]"
| "models_of (LiteralT vs) = []"
| "models_of (Generic origin args) = models_of_args args"
| "models_of_args [] = []"
| "models_of_args (t # ts) = models_of t @ models_of_args ts"

fun is_MissingFieldsListError :: "error + 'a \<Rightarrow> bool" where
  "is_MissingFieldsListError (Inl (MissingFieldsListError c)) = True"
| "is_MissingFieldsListError r = False"

text \<open>
  The condition for \<^verbatim>\<open>MissingFieldsListError\<close> in the words of the specification:
  \<^verbatim>\<open>all_fields\<close> is false, no non-empty \<^verbatim>\<open>fields\<close> list was passed, and no class annotation
  names a pydantic model field or is typed with the auto marker.
\<close>

definition claimed_empty_condition :: "PydanticModel \<Rightarrow> type_kwargs \<Rightarrow> UserClass \<Rightarrow> bool" where
  "claimed_empty_condition model kw cls =
     (\<not> kw_all_fields kw \<and> \<not> truthy (kw_fields kw) \<and>
      \<not> list_ex (\<lambda>(name, typ). name \<in> set (model_field_names model) \<or> typ = strawberry_auto)
          (cls_annotations cls))"

text \<open>
  Sample inputs. The model is
  \<^verbatim>\<open>class User(BaseModel): age: int; password: Optional[str]\<close>: pydantic gives the
  second field the outer type \<^verbatim>\<open>str\<close>, \<^verbatim>\<open>required = False\<close> and the default \<^verbatim>\<open>None\<close>.
  \<open>Empty\<close> is \<^verbatim>\<open>class Empty(BaseModel): pass\<close>.
  The helpers behave as their names say on these inputs: every type is basic, a field
  that is not required has its default as factory, the auto fields are checked against
  the model, every annotation of the class is a strawberry field without resolver,
  nothing is private, and fields without default go first.
\<close>

definition age_field :: ModelField where
  "age_field =
     \<lparr>mf_name = ''age'', mf_outer_type = Class ''int'', mf_required = True,
      mf_alias = ''age'', mf_has_alias = False, mf_description = None,
      mf_default = VNone\<rparr>"

definition password_field :: ModelField where
  "password_field =
     \<lparr>mf_name = ''password'', mf_outer_type = Class ''str'', mf_required = False,
      mf_alias = ''password'', mf_has_alias = False, mf_description = None,
      mf_default = VNone\<rparr>"

definition User :: PydanticModel where
  "User =
     \<lparr>model_name = ''User'', model_fields = [age_field, password_field],
      allow_population_by_field_name = False\<rparr>"

definition Empty :: PydanticModel where
  "Empty = \<lparr>model_name = ''Empty'', model_fields = [], allow_population_by_field_name = False\<rparr>"

definition annotated_field :: "string \<times> ty \<Rightarrow> StrawberryField" where
  "annotated_field a =
     \<lparr>sf_python_name = fst a, sf_graphql_name = None, sf_default = None,
      sf_default_factory = None, sf_type_annotation = snd a, sf_description = None,
      sf_base_resolver = None\<rparr>"

definition has_no_default :: "DataclassCreationFields \<Rightarrow> bool" where
  "has_no_default f =
     (sf_default (dcf_field f) = None \<and> sf_default_factory (dcf_field f) = None)"

definition sample_helpers :: helpers where
  "sample_helpers =
     \<lparr>get_basic_type = Some,
      get_default_factory_for_field =
        (\<lambda>field. if mf_required field then None else Some (mf_default field)),
      ensure_all_auto_fields_in_pydantic =
        (\<lambda>model auto_fields name.
           if auto_fields \<subseteq> set (model_field_names model) then None
           else Some ''auto fields missing from the model''),
      get_fields = (\<lambda>cls. map annotated_field (cls_annotations cls)),
      get_private_fields = (\<lambda>cls. []),
      sort_creation_fields =
        (\<lambda>fs. filter has_no_default fs @ filter (\<lambda>f. \<not> has_no_default f) fs)\<rparr>"

definition default_kwargs :: type_kwargs where
  "default_kwargs =
     \<lparr>kw_fields = None, kw_name = None, kw_is_input = False, kw_is_interface = False,
      kw_description = None, kw_directives = [], kw_all_fields = False,
      kw_from_pydantic = None, kw_to_pydantic = None\<rparr>"

definition all_fields_kwargs :: type_kwargs where
  "all_fields_kwargs = default_kwargs\<lparr>kw_all_fields := True\<rparr>"

definition initial_state :: pystate where
  "initial_state = \<lparr>attrs = (\<lambda>c. Map.empty), warnings = []\<rparr>"

text \<open>
  \<^verbatim>\<open>class UserType: age: strawberry.auto\<close>,
  \<^verbatim>\<open>class Typed: age: strawberry.auto; password: str\<close> and
  \<^verbatim>\<open>class Misnamed: nickname: strawberry.auto\<close>.
\<close>

definition UserType :: UserClass where
  "UserType =
     \<lparr>cls_name = ''UserType'', cls_annotations = [(''age'', strawberry_auto)],
      cls_bases = [''object'']\<rparr>"

definition Typed :: UserClass where
  "Typed =
     \<lparr>cls_name = ''Typed'',
      cls_annotations = [(''age'', strawberry_auto), (''password'', Class ''str'')],
      cls_bases = [''object'']\<rparr>"

definition Misnamed :: UserClass where
  "Misnamed =
     \<lparr>cls_name = ''Misnamed'', cls_annotations = [(''nickname'', strawberry_auto)],
      cls_bases = [''object'']\<rparr>"

text \<open>The creation fields and the class that these inputs lead to.\<close>

definition age_creation :: DataclassCreationFields where
  "age_creation =
     \<lparr>dcf_name = ''age'', dcf_type_annotation = Class ''int'',
      dcf_field =
        \<lparr>sf_python_name = ''age'', sf_graphql_name = None, sf_default = None,
         sf_default_factory = None, sf_type_annotation = Class ''int'',
         sf_description = None, sf_base_resolver = None\<rparr>\<rparr>"

definition password_creation :: "ty \<Rightarrow> DataclassCreationFields" where
  "password_creation t =
     \<lparr>dcf_name = ''password'', dcf_type_annotation = t,
      dcf_field =
        \<lparr>sf_python_name = ''password'', sf_graphql_name = None, sf_default = None,
         sf_default_factory = Some VNone, sf_type_annotation = t,
         sf_description = None, sf_base_resolver = None\<rparr>\<rparr>"

definition generated_class ::
  "string \<Rightarrow> PydanticModel \<Rightarrow> DataclassCreationFields list \<Rightarrow> StrawberryType" where
  "generated_class n model creation_fields =
     \<lparr>st_name = n, st_fields = map to_tuple creation_fields,
      st_bases = [''object''], st_is_type_of_model = model, st_graphql_name = None,
      st_is_input = False, st_is_interface = False, st_description = None,
      st_directives = [], st_pydantic_type = model, st_from_pydantic = Default,
      st_to_pydantic = Default\<rparr>"

text \<open>
  Sample inputs for the conversions: the class that decorating \<open>UserType\<close> gives without
  and with \<^verbatim>\<open>all_fields\<close>, a world that knows one of them, and an instance of \<open>User\<close>;
  then \<^verbatim>\<open>class Account(BaseModel): owner: User\<close>, decorated with \<^verbatim>\<open>all_fields\<close> as
  \<^verbatim>\<open>class AccountType: pass\<close> once \<open>User\<close> is registered, a world that knows both
  classes, and an account.
\<close>

definition optional_str :: ty where
  "optional_str = Generic ''Union'' [Class ''str'', NoneType]"


definition UserType_all :: StrawberryType where
  "UserType_all = generated_class ''UserType'' User [age_creation, password_creation optional_str]"











section \<open>Properties of the type substitution\<close>








lemma replace_raises:
  "replace_pydantic_types A t is_input = Inl e \<Longrightarrow>
      \<exists>m \<in> set (models_of t). A m (registration_attr is_input) = None
          \<and> e = UnregisteredTypeException (Model m)"
  and replace_args_raises:
  "replace_args A ts is_input = Inl e \<Longrightarrow>
      \<exists>m \<in> set (models_of_args ts). A m (registration_attr is_input) = None
          \<and> e = UnregisteredTypeException (Model m)"
  by (induction t and ts rule: models_of_models_of_args.induct)
    (auto simp: isinstance_TypeDefinition_def split: sum.splits option.splits)






section \<open>Properties of the field reconciliation\<close>

lemma original_fields_set_eq:
  "original_fields_set kw = (case kw_fields kw of None \<Rightarrow> {} | Some fs \<Rightarrow> set fs)"
  by (simp add: original_fields_set_def truthy_def split: option.splits)

lemma matched_annotation_names:
  "set (map fst (filter (\<lambda>(name, typ). name \<in> S) xs)) = {n. \<exists>t. (n, t) \<in> set xs \<and> n \<in> S}"
  by (induction xs) auto

lemma auto_annotation_names:
  "set (map fst (filter (\<lambda>(name, typ). typ = a) xs)) = {n. (n, a) \<in> set xs}"
  by (induction xs) auto

text \<open>
  C3. The set of copied fields is the explicit \<^verbatim>\<open>fields\<close> list united with the names of
  the class annotations that are fields of the pydantic model; the auto set is the
  explicit list united with the names of the annotations typed \<^verbatim>\<open>strawberry.auto\<close>; with
  \<^verbatim>\<open>all_fields\<close> both are exactly the field names of the model, whatever the list and the
  annotations are.
\<close>

theorem reconciliation_is_union:
  "fields_set model kw cls =
     (if kw_all_fields kw then set (model_field_names model)
      else (case kw_fields kw of None \<Rightarrow> {} | Some fs \<Rightarrow> set fs) \<union>
           {n. \<exists>t. (n, t) \<in> set (cls_annotations cls) \<and> n \<in> set (model_field_names model)})
   \<and> auto_fields_set model kw cls =
     (if kw_all_fields kw then set (model_field_names model)
      else (case kw_fields kw of None \<Rightarrow> {} | Some fs \<Rightarrow> set fs) \<union>
           {n. (n, strawberry_auto) \<in> set (cls_annotations cls)})"
  unfolding fields_set_def auto_fields_set_def fields_set_union_def auto_fields_set_union_def
    original_fields_set_eq matched_annotation_names auto_annotation_names
  by simp

lemma auto_model_field_copied:
  "field \<in> set (model_fields model) \<Longrightarrow> mf_name field \<in> auto_fields_set model kw cls \<Longrightarrow>
     mf_name field \<in> fields_set model kw cls"
  unfolding fields_set_def auto_fields_set_def fields_set_union_def auto_fields_set_union_def
    matched_annotation_names auto_annotation_names
  by (auto simp: model_field_names_def split: if_splits)

lemma fields_set_empty_iff:
  "fields_set model kw cls = {} \<longleftrightarrow>
     (if kw_all_fields kw then model_fields model = []
      else \<not> truthy (kw_fields kw) \<and>
           \<not> list_ex (\<lambda>(name, typ). name \<in> set (model_field_names model)) (cls_annotations cls))"
  by (auto simp: fields_set_def fields_set_union_def original_fields_set_def truthy_def
      model_field_names_def list_ex_iff split: option.splits)

text \<open>The two sets for the sample classes.\<close>

lemma fields_set_UserType: "fields_set User default_kwargs UserType = {''age''}"
  by (auto simp: fields_set_def fields_set_union_def original_fields_set_def truthy_def
      default_kwargs_def User_def UserType_def model_field_names_def age_field_def
      password_field_def)

lemma auto_fields_set_UserType: "auto_fields_set User default_kwargs UserType = {''age''}"
  by (auto simp: auto_fields_set_def auto_fields_set_union_def original_fields_set_def truthy_def
      default_kwargs_def UserType_def)

lemma fields_set_Typed: "fields_set User default_kwargs Typed = {''age'', ''password''}"
  by (auto simp: fields_set_def fields_set_union_def original_fields_set_def truthy_def
      default_kwargs_def User_def Typed_def model_field_names_def age_field_def
      password_field_def)

lemma auto_fields_set_Typed: "auto_fields_set User default_kwargs Typed = {''age''}"
  by (auto simp: auto_fields_set_def auto_fields_set_union_def original_fields_set_def truthy_def
      default_kwargs_def Typed_def strawberry_auto_def)

lemma fields_set_all: "fields_set User all_fields_kwargs UserType = {''age'', ''password''}"
  by (auto simp: fields_set_def all_fields_kwargs_def default_kwargs_def User_def
      model_field_names_def age_field_def password_field_def)

lemma auto_fields_set_all:
  "auto_fields_set User all_fields_kwargs UserType = {''age'', ''password''}"
  by (auto simp: auto_fields_set_def all_fields_kwargs_def default_kwargs_def User_def
      model_field_names_def age_field_def password_field_def)

section \<open>Properties of the creation fields\<close>

lemma collect_member:
  "collect f xs = Inr ys \<Longrightarrow> x \<in> set xs \<Longrightarrow> \<exists>y \<in> set ys. f x = Inr y"
  by (induction xs arbitrary: ys) (auto split: sum.splits)

lemma collect_member_rev:
  "collect f xs = Inr ys \<Longrightarrow> y \<in> set ys \<Longrightarrow> \<exists>x \<in> set xs. f x = Inr y"
  by (induction xs arbitrary: ys) (auto split: sum.splits)

lemma collect_Inl_source:
  "collect f xs = Inl e \<Longrightarrow> \<exists>x \<in> set xs. f x = Inl e"
  by (induction xs) (auto split: sum.splits)

lemma build_name:
  "build_dataclass_creation_fields H A field is_input existing auto_set = Inr d \<Longrightarrow>
     dcf_name d = mf_name field"
  by (auto simp: build_dataclass_creation_fields_def Let_def split: sum.splits)

lemma build_type:
  "build_dataclass_creation_fields H A field is_input existing auto_set = Inr d \<Longrightarrow>
     (if mf_name field \<in> auto_set
      then get_type_for_field H A field is_input = Inr (dcf_type_annotation d)
      else (\<exists>e. existing (mf_name field) = Some e \<and> dcf_type_annotation d = sf_type_annotation e))"
  by (auto simp: build_dataclass_creation_fields_def Let_def
      split: sum.splits option.splits if_splits)

lemma get_type_for_field_errors:
  "get_type_for_field H A field is_input = Inl e \<Longrightarrow>
     e = UnsupportedTypeError \<or> (\<exists>m. e = UnregisteredTypeException (Model m))"
  using replace_raises [of A _ is_input e]
  by (auto simp: get_type_for_field_def split: option.splits sum.splits if_splits)

lemma build_errors:
  "build_dataclass_creation_fields H A field is_input existing auto_set = Inl e \<Longrightarrow>
     e = UnsupportedTypeError \<or> (\<exists>m. e = UnregisteredTypeException (Model m))
       \<or> e = KeyError (mf_name field)"
  using get_type_for_field_errors [of H A field is_input e]
  by (auto simp: build_dataclass_creation_fields_def Let_def
      split: option.splits sum.splits if_splits)

lemma all_model_fields_split:
  assumes "all_model_fields H A model kw cls = Inr ds"
  obtains from_model where
    "collect (\<lambda>field. build_dataclass_creation_fields H A field (kw_is_input kw)
                 (extra_fields_dict (get_fields H cls)) (auto_fields_set model kw cls))
       (filter (\<lambda>field. mf_name field \<in> fields_set model kw cls) (model_fields model))
     = Inr from_model"
    "ds = from_model @
        map (\<lambda>field. \<lparr>dcf_name = sf_python_name field,
                      dcf_type_annotation = sf_type_annotation field, dcf_field = field\<rparr>)
          (filter (\<lambda>field. sf_python_name field \<notin> fields_set model kw cls)
             (get_fields H cls @ get_private_fields H cls))"
  using assms by (auto simp: all_model_fields_def Let_def split: sum.splits)

lemma all_model_fields_errors:
  "all_model_fields H A model kw cls = Inl e \<Longrightarrow> \<not> is_MissingFieldsListError (Inl e)"
proof -
  assume "all_model_fields H A model kw cls = Inl e"
  then obtain field where
    "build_dataclass_creation_fields H A field (kw_is_input kw)
       (extra_fields_dict (get_fields H cls)) (auto_fields_set model kw cls) = Inl e"
    by (auto simp: all_model_fields_def Let_def split: sum.splits dest: collect_Inl_source)
  from build_errors [OF this] show ?thesis by auto
qed

lemma copied_field_created:
  assumes "all_model_fields H A model kw cls = Inr ds"
    and "field \<in> set (model_fields model)"
    and "mf_name field \<in> fields_set model kw cls"
  shows "\<exists>d \<in> set ds.
           build_dataclass_creation_fields H A field (kw_is_input kw)
             (extra_fields_dict (get_fields H cls)) (auto_fields_set model kw cls) = Inr d"
proof -
  from assms(1) obtain from_model where
    c: "collect (\<lambda>field. build_dataclass_creation_fields H A field (kw_is_input kw)
                 (extra_fields_dict (get_fields H cls)) (auto_fields_set model kw cls))
       (filter (\<lambda>field. mf_name field \<in> fields_set model kw cls) (model_fields model))
     = Inr from_model"
    and d: "set from_model \<subseteq> set ds"
    by (rule all_model_fields_split) auto
  from assms(2,3)
  have "field \<in> set (filter (\<lambda>field. mf_name field \<in> fields_set model kw cls)
                      (model_fields model))"
    by simp
  from collect_member [OF c this] d show ?thesis by auto
qed

lemma created_field_copied:
  assumes "all_model_fields H A model kw cls = Inr ds"
    and "d \<in> set ds"
    and "dcf_name d \<in> fields_set model kw cls"
  shows "\<exists>field \<in> set (model_fields model).
           build_dataclass_creation_fields H A field (kw_is_input kw)
             (extra_fields_dict (get_fields H cls)) (auto_fields_set model kw cls) = Inr d"
proof -
  from assms(1) obtain from_model where
    c: "collect (\<lambda>field. build_dataclass_creation_fields H A field (kw_is_input kw)
                 (extra_fields_dict (get_fields H cls)) (auto_fields_set model kw cls))
       (filter (\<lambda>field. mf_name field \<in> fields_set model kw cls) (model_fields model))
     = Inr from_model"
    and d: "ds = from_model @
        map (\<lambda>field. \<lparr>dcf_name = sf_python_name field,
                      dcf_type_annotation = sf_type_annotation field, dcf_field = field\<rparr>)
          (filter (\<lambda>field. sf_python_name field \<notin> fields_set model kw cls)
             (get_fields H cls @ get_private_fields H cls))"
    by (rule all_model_fields_split)
  from assms(2,3) d have "d \<in> set from_model" by auto
  from collect_member_rev [OF c this] show ?thesis by auto
qed

lemma set_dedup: "set (dedup xs) = set xs"
  by (induction xs rule: dedup.induct) auto

lemma Optional_has_None: "NoneType \<in> set (union_members (Optional t))"
proof -
  have m: "NoneType \<in> set (dedup (union_members t @ [NoneType]))"
    by (simp add: set_dedup)
  show ?thesis
  proof (cases "dedup (union_members t @ [NoneType])")
    case Nil
    with m show ?thesis by simp
  next
    case (Cons a as)
    note outer = this
    show ?thesis
    proof (cases as)
      case Nil
      with outer m have "a = NoneType" by simp
      moreover from outer Nil have "Optional t = a" by (simp add: Optional_def)
      ultimately show ?thesis by (simp add: NoneType_def)
    next
      case (Cons b bs)
      with outer m show ?thesis by (simp add: Optional_def)
    qed
  qed
qed

text \<open>The creation fields of the sample classes.\<close>

lemma all_model_fields_UserType:
  "all_model_fields sample_helpers A User default_kwargs UserType = Inr [age_creation]"
  unfolding all_model_fields_def fields_set_UserType auto_fields_set_UserType
  by (simp add: sample_helpers_def User_def default_kwargs_def UserType_def
      build_dataclass_creation_fields_def get_type_for_field_def extra_fields_dict_def
      annotated_field_def Let_def age_field_def password_field_def age_creation_def)

lemma all_model_fields_Typed:
  "all_model_fields sample_helpers A User default_kwargs Typed =
     Inr [age_creation, password_creation (Class ''str'')]"
  unfolding all_model_fields_def fields_set_Typed auto_fields_set_Typed
  by (simp add: sample_helpers_def User_def default_kwargs_def Typed_def
      build_dataclass_creation_fields_def get_type_for_field_def extra_fields_dict_def
      annotated_field_def Let_def age_field_def password_field_def age_creation_def
      password_creation_def)

lemma all_model_fields_all:
  "all_model_fields sample_helpers A User all_fields_kwargs UserType =
     Inr [age_creation, password_creation (Generic ''Union'' [Class ''str'', NoneType])]"
  unfolding all_model_fields_def fields_set_all auto_fields_set_all
  by (simp add: sample_helpers_def User_def all_fields_kwargs_def default_kwargs_def
      UserType_def build_dataclass_creation_fields_def get_type_for_field_def
      extra_fields_dict_def annotated_field_def Let_def Optional_def NoneType_def
      age_field_def password_field_def age_creation_def password_creation_def)

text \<open>
  C4. In the list of creation fields that \<^verbatim>\<open>wrap\<close> builds, every copied field of the
  model has an entry of its name; when the field is in the auto set, the type annotation
  of the entry is what \<^verbatim>\<open>get_type_for_field\<close> computes from the model field, and
  otherwise it is the type of the field that the user's class already has under that
  name. Conversely every entry named in the set of copied fields comes from a model
  field in this way.
\<close>

theorem auto_type_from_model_else_existing:
  assumes "all_model_fields H A model kw cls = Inr ds"
  shows "(\<forall>field \<in> set (model_fields model). mf_name field \<in> fields_set model kw cls \<longrightarrow>
            (\<exists>d \<in> set ds. dcf_name d = mf_name field \<and>
               (if mf_name field \<in> auto_fields_set model kw cls
                then get_type_for_field H A field (kw_is_input kw) = Inr (dcf_type_annotation d)
                else (\<exists>existing.
                        extra_fields_dict (get_fields H cls) (mf_name field) = Some existing
                        \<and> dcf_type_annotation d = sf_type_annotation existing))))
       \<and> (\<forall>d \<in> set ds. dcf_name d \<in> fields_set model kw cls \<longrightarrow>
            (\<exists>field \<in> set (model_fields model). mf_name field = dcf_name d \<and>
               (if mf_name field \<in> auto_fields_set model kw cls
                then get_type_for_field H A field (kw_is_input kw) = Inr (dcf_type_annotation d)
                else (\<exists>existing.
                        extra_fields_dict (get_fields H cls) (mf_name field) = Some existing
                        \<and> dcf_type_annotation d = sf_type_annotation existing))))"
proof (intro conjI ballI impI)
  fix field
  assume "field \<in> set (model_fields model)" "mf_name field \<in> fields_set model kw cls"
  from copied_field_created [OF assms this] obtain d where
    "d \<in> set ds"
    "build_dataclass_creation_fields H A field (kw_is_input kw)
       (extra_fields_dict (get_fields H cls)) (auto_fields_set model kw cls) = Inr d"
    by blast
  then show "\<exists>d \<in> set ds. dcf_name d = mf_name field \<and>
               (if mf_name field \<in> auto_fields_set model kw cls
                then get_type_for_field H A field (kw_is_input kw) = Inr (dcf_type_annotation d)
                else (\<exists>existing.
                        extra_fields_dict (get_fields H cls) (mf_name field) = Some existing
                        \<and> dcf_type_annotation d = sf_type_annotation existing))"
    using build_name build_type by blast
next
  fix d
  assume "d \<in> set ds" "dcf_name d \<in> fields_set model kw cls"
  from created_field_copied [OF assms this] obtain field where
    "field \<in> set (model_fields model)"
    "build_dataclass_creation_fields H A field (kw_is_input kw)
       (extra_fields_dict (get_fields H cls)) (auto_fields_set model kw cls) = Inr d"
    by blast
  then show "\<exists>field \<in> set (model_fields model). mf_name field = dcf_name d \<and>
               (if mf_name field \<in> auto_fields_set model kw cls
                then get_type_for_field H A field (kw_is_input kw) = Inr (dcf_type_annotation d)
                else (\<exists>existing.
                        extra_fields_dict (get_fields H cls) (mf_name field) = Some existing
                        \<and> dcf_type_annotation d = sf_type_annotation existing))"
    using build_name build_type by metis
qed

theorem auto_type_from_model_else_existing_witness:
  "all_model_fields sample_helpers (\<lambda>c. Map.empty) User default_kwargs Typed
     = Inr [age_creation, password_creation (Class ''str'')]
   \<and> get_type_for_field sample_helpers (\<lambda>c. Map.empty) age_field False
       = Inr (dcf_type_annotation age_creation)
   \<and> (\<exists>existing. extra_fields_dict (get_fields sample_helpers Typed) ''password'' = Some existing
         \<and> dcf_type_annotation (password_creation (Class ''str'')) = sf_type_annotation existing)"
proof -
  have fields: "model_fields User = [age_field, password_field]"
    by (simp add: User_def)
  have "\<forall>field \<in> set [age_field, password_field].
          mf_name field \<in> {''age'', ''password''} \<longrightarrow>
          (\<exists>d \<in> set [age_creation, password_creation (Class ''str'')].
             dcf_name d = mf_name field \<and>
             (if mf_name field \<in> {''age''}
              then get_type_for_field sample_helpers (\<lambda>c. Map.empty) field
                     (kw_is_input default_kwargs) = Inr (dcf_type_annotation d)
              else (\<exists>existing.
                      extra_fields_dict (get_fields sample_helpers Typed) (mf_name field)
                        = Some existing
                      \<and> dcf_type_annotation d = sf_type_annotation existing)))"
    using auto_type_from_model_else_existing
      [OF all_model_fields_Typed [of "\<lambda>c. Map.empty"],
        unfolded fields_set_Typed auto_fields_set_Typed fields]
    by (rule conjunct1)
  then have "get_type_for_field sample_helpers (\<lambda>c. Map.empty) age_field False
       = Inr (dcf_type_annotation age_creation)
   \<and> (\<exists>existing. extra_fields_dict (get_fields sample_helpers Typed) ''password'' = Some existing
         \<and> dcf_type_annotation (password_creation (Class ''str'')) = sf_type_annotation existing)"
    by (simp add: age_field_def password_field_def default_kwargs_def
        age_creation_def password_creation_def)
  with all_model_fields_Typed [of "\<lambda>c. Map.empty"] show ?thesis
    by blast
qed

text \<open>
  C8. For a model field in the auto set, the type annotation of its creation field is
  the type that \<^verbatim>\<open>replace_pydantic_types\<close> substitutes for the basic type of the field
  when the field is required, and \<^verbatim>\<open>Optional\<close> of that type, a type that admits
  \<^verbatim>\<open>None\<close>, when it is not required.
\<close>

theorem optional_iff_not_required:
  assumes "all_model_fields H A model kw cls = Inr ds"
    and "field \<in> set (model_fields model)"
    and "mf_name field \<in> auto_fields_set model kw cls"
  shows "\<exists>d \<in> set ds. \<exists>basic substituted.
           dcf_name d = mf_name field
           \<and> get_basic_type H (mf_outer_type field) = Some basic
           \<and> replace_pydantic_types A basic (kw_is_input kw) = Inr substituted
           \<and> dcf_type_annotation d =
               (if mf_required field then substituted else Optional substituted)
           \<and> NoneType \<in> set (union_members (Optional substituted))"
proof -
  from copied_field_created [OF assms(1,2) auto_model_field_copied [OF assms(2,3)]]
  obtain d where d: "d \<in> set ds"
    "build_dataclass_creation_fields H A field (kw_is_input kw)
       (extra_fields_dict (get_fields H cls)) (auto_fields_set model kw cls) = Inr d"
    by blast
  from build_type [OF d(2)] assms(3)
  have "get_type_for_field H A field (kw_is_input kw) = Inr (dcf_type_annotation d)" by simp
  then obtain basic substituted where
    "get_basic_type H (mf_outer_type field) = Some basic"
    "replace_pydantic_types A basic (kw_is_input kw) = Inr substituted"
    "dcf_type_annotation d = (if mf_required field then substituted else Optional substituted)"
    by (auto simp: get_type_for_field_def split: option.splits sum.splits if_splits)
  with d build_name [OF d(2)] Optional_has_None show ?thesis by blast
qed

theorem optional_iff_not_required_witness:
  "all_model_fields sample_helpers (\<lambda>c. Map.empty) User all_fields_kwargs UserType
     = Inr [age_creation, password_creation (Generic ''Union'' [Class ''str'', NoneType])]
   \<and> password_field \<in> set (model_fields User)
   \<and> mf_name password_field \<in> auto_fields_set User all_fields_kwargs UserType
   \<and> \<not> mf_required password_field
   \<and> dcf_type_annotation (password_creation (Generic ''Union'' [Class ''str'', NoneType]))
       = Optional (Class ''str'')"
proof -
  have f: "password_field \<in> set (model_fields User)"
    by (simp add: User_def)
  have a: "mf_name password_field \<in> auto_fields_set User all_fields_kwargs UserType"
    by (simp add: auto_fields_set_all password_field_def)
  from optional_iff_not_required [OF all_model_fields_all [of "\<lambda>c. Map.empty"] f a]
  have "\<exists>d \<in> set [age_creation, password_creation (Generic ''Union'' [Class ''str'', NoneType])].
          dcf_name d = ''password'' \<and> dcf_type_annotation d = Optional (Class ''str'')"
    by (auto simp: password_field_def sample_helpers_def all_fields_kwargs_def
        default_kwargs_def)
  then have "dcf_type_annotation (password_creation (Generic ''Union'' [Class ''str'', NoneType]))
       = Optional (Class ''str'') \<and> \<not> mf_required password_field"
    by (simp add: password_field_def age_creation_def password_creation_def)
  with all_model_fields_all [of "\<lambda>c. Map.empty"] f a show ?thesis
    by blast
qed

section \<open>Properties of the decorator\<close>

lemma attrs_issue_warnings: "attrs (issue_warnings model kw cls s) = attrs s"
  by (simp add: issue_warnings_def warn_def Let_def)

lemma wrap_raises_missing_iff:
  "is_MissingFieldsListError (snd (wrap H model kw cls s)) \<longleftrightarrow> fields_set model kw cls = {}"
  by (auto simp: wrap_def Let_def all_model_fields_errors split: option.splits sum.splits)

lemma wrap_Misnamed_raises:
  "is_MissingFieldsListError
     (snd (wrap sample_helpers User default_kwargs Misnamed initial_state))"
  by (simp add: wrap_raises_missing_iff fields_set_empty_iff default_kwargs_def Misnamed_def
      User_def truthy_def model_field_names_def age_field_def password_field_def)

lemma wrap_UserType:
  "wrap sample_helpers User default_kwargs UserType initial_state =
     (initial_state
        \<lparr>attrs := (\<lambda>c. Map.empty)(''User'' := [''_strawberry_type'' \<mapsto> Class ''UserType''])\<rparr>,
      Inr (generated_class ''UserType'' User [age_creation]))"
  unfolding wrap_def Let_def fields_set_UserType auto_fields_set_UserType
    all_model_fields_UserType
  by (simp add: sample_helpers_def User_def default_kwargs_def UserType_def model_field_names_def
      make_class_def generated_class_def to_tuple_def has_no_default_def issue_warnings_def
      truthy_def fields_set_union_def original_fields_set_def setattr_class_def
      initial_state_def registration_attr_def age_field_def password_field_def
      age_creation_def)

text \<open>
  C2, as the claim states it, fails. A class whose only annotation is typed
  \<^verbatim>\<open>strawberry.auto\<close> under a name that is not a field of the model is refused with
  \<^verbatim>\<open>MissingFieldsListError\<close>, although an annotation carries the auto marker; and with
  \<^verbatim>\<open>all_fields=True\<close> a model without fields is refused as well.
\<close>

theorem claimed_empty_condition_counterexample:
  "is_MissingFieldsListError
     (snd (wrap sample_helpers User default_kwargs Misnamed initial_state))
   \<and> \<not> claimed_empty_condition User default_kwargs Misnamed
   \<and> is_MissingFieldsListError
       (snd (wrap sample_helpers Empty all_fields_kwargs UserType initial_state))
   \<and> \<not> claimed_empty_condition Empty all_fields_kwargs UserType"
  by (simp add: wrap_raises_missing_iff fields_set_empty_iff claimed_empty_condition_def
      all_fields_kwargs_def default_kwargs_def Misnamed_def User_def Empty_def UserType_def
      truthy_def model_field_names_def age_field_def password_field_def)

text \<open>
  C2, amended. \<^verbatim>\<open>wrap\<close> raises \<^verbatim>\<open>MissingFieldsListError\<close> exactly when the reconciled set
  of copied fields is empty, that is: with \<^verbatim>\<open>all_fields\<close>, when the model has no field;
  without it, when no non-empty \<^verbatim>\<open>fields\<close> list was passed and no class annotation is
  named after a field of the model (the auto marker plays no part). The exception
  carries the decorated class.
\<close>

theorem missing_fields_iff_empty_field_set:
  "(is_MissingFieldsListError (snd (wrap H model kw cls s)) \<longleftrightarrow> fields_set model kw cls = {})
   \<and> (fields_set model kw cls = {} \<longleftrightarrow>
       (if kw_all_fields kw then model_fields model = []
        else \<not> truthy (kw_fields kw) \<and>
             \<not> list_ex (\<lambda>(name, typ). name \<in> set (model_field_names model))
                 (cls_annotations cls)))
   \<and> (is_MissingFieldsListError (snd (wrap H model kw cls s)) \<longrightarrow>
        snd (wrap H model kw cls s) = Inl (MissingFieldsListError (cls_name cls)))"
  using wrap_raises_missing_iff [of H model kw cls s] fields_set_empty_iff [of model kw cls]
  by (simp add: wrap_def Let_def)

theorem missing_fields_iff_empty_field_set_witness:
  "snd (wrap sample_helpers User default_kwargs Misnamed initial_state)
     = Inl (MissingFieldsListError ''Misnamed'')
   \<and> \<not> is_MissingFieldsListError
         (snd (wrap sample_helpers User default_kwargs UserType initial_state))"
  using missing_fields_iff_empty_field_set
      [of sample_helpers User default_kwargs Misnamed initial_state]
    missing_fields_iff_empty_field_set
      [of sample_helpers User default_kwargs UserType initial_state]
  by (simp add: default_kwargs_def Misnamed_def UserType_def User_def truthy_def
      model_field_names_def age_field_def password_field_def)

text \<open>
  C9. When \<^verbatim>\<open>wrap\<close> raises \<^verbatim>\<open>MissingFieldsListError\<close>, the attributes of every class are
  what they were before the call; in particular \<^verbatim>\<open>_strawberry_type\<close> and
  \<^verbatim>\<open>_strawberry_input_type\<close> of the model are not set by the failed call.
\<close>

theorem missing_fields_leaves_model_unchanged:
  "is_MissingFieldsListError (snd (wrap H model kw cls s)) \<Longrightarrow>
     attrs (fst (wrap H model kw cls s)) = attrs s
     \<and> attrs (fst (wrap H model kw cls s)) (model_name model) ''_strawberry_type''
         = attrs s (model_name model) ''_strawberry_type''
     \<and> attrs (fst (wrap H model kw cls s)) (model_name model) ''_strawberry_input_type''
         = attrs s (model_name model) ''_strawberry_input_type''"
  by (simp add: wrap_raises_missing_iff) (simp add: wrap_def Let_def attrs_issue_warnings)

theorem missing_fields_leaves_model_unchanged_witness:
  "is_MissingFieldsListError
     (snd (wrap sample_helpers User default_kwargs Misnamed initial_state))
   \<and> attrs (fst (wrap sample_helpers User default_kwargs Misnamed initial_state)) ''User''
        ''_strawberry_type'' = None
   \<and> attrs (fst (wrap sample_helpers User default_kwargs Misnamed initial_state)) ''User''
        ''_strawberry_input_type'' = None"
  using missing_fields_leaves_model_unchanged [OF wrap_Misnamed_raises] wrap_Misnamed_raises
  by (simp add: User_def initial_state_def)



text \<open>
  C10. \<^verbatim>\<open>is_type_of\<close> of the generated class is true of an object exactly when the object
  is an instance of the generated class or an instance of the pydantic model.
\<close>

theorem is_type_of_generated_or_model:
  "wrap H model kw cls s = (s', Inr generated) \<Longrightarrow>
     is_type_of mro generated (st_name generated) obj \<longleftrightarrow>
       isinstance mro obj [st_name generated] \<or> isinstance mro obj [model_name model]"
  by (auto simp: wrap_def Let_def is_type_of_def isinstance_def make_class_def
      split: if_splits option.splits sum.splits)

theorem is_type_of_generated_or_model_witness:
  "is_type_of (\<lambda>c. [c, ''object'']) (generated_class ''UserType'' User [age_creation]) ''UserType''
     (VModel ''User'' [(''age'', VInt 3), (''password'', VNone)])
   \<and> is_type_of (\<lambda>c. [c, ''object'']) (generated_class ''UserType'' User [age_creation]) ''UserType''
     (VObj ''UserType'' [(''age'', VInt 3)])
   \<and> \<not> is_type_of (\<lambda>c. [c, ''object'']) (generated_class ''UserType'' User [age_creation])
         ''UserType'' (VInt 3)"
  using is_type_of_generated_or_model [OF wrap_UserType, of "\<lambda>c. [c, ''object'']"]
  by (simp add: generated_class_def isinstance_def User_def)


section \<open>Properties of the conversions\<close>












text \<open>The class that \<^verbatim>\<open>all_fields\<close> gives for the sample model.\<close>

lemma wrap_all_fields:
  "snd (wrap sample_helpers User all_fields_kwargs UserType initial_state) = Inr UserType_all"
  unfolding wrap_def Let_def fields_set_all auto_fields_set_all all_model_fields_all
  by (simp add: sample_helpers_def User_def all_fields_kwargs_def default_kwargs_def
      UserType_def model_field_names_def make_class_def generated_class_def to_tuple_def
      has_no_default_def issue_warnings_def truthy_def fields_set_union_def
      original_fields_set_def setattr_class_def initial_state_def registration_attr_def
      age_field_def password_field_def age_creation_def password_creation_def
      UserType_all_def optional_str_def)








end
